theory Spec2Isabelle
  imports Main "HOL-Library.Sublist"
begin

section \<open>The script template \<^verbatim>\<open>templates/python-template/script.py\<close>\<close>

text \<open>
  The template is a command-line script: it sets up logging, checks the interpreter
  version, loads a JSON configuration file and reports its progress in the log.
  Everything the script does beyond computing is written out here: the log, the
  processes it starts and the stack traces it prints are fields of a \<open>state\<close>
  that every function takes and returns; the file system, the JSON parser, the
  interpreter version and the external processes are fields of an \<open>env\<close>
  that the functions consult; an exception is the \<open>Inl\<close> of a sum type.
\<close>

subsection \<open>Values, exceptions, paths\<close>

text \<open>
  What \<^verbatim>\<open>json.load\<close> can return. A Python dict keeps its keys in insertion
  order, so it is an association list. A float is kept by its literal, since the script
  never computes with one.
\<close>

datatype json =
    JNull
  | JBool bool
  | JInt int
  | JFloat string
  | JStr string
  | JList "json list"
  | JDict "(string \<times> json) list"

text \<open>
  The exception classes that the script names or that its calls raise.
  \<open>CalledProcessError returncode cmd output stderr\<close> has the fields of
  \<^verbatim>\<open>subprocess.CalledProcessError\<close>. \<open>OSError\<close> stands for the class and all its
  subclasses (\<^verbatim>\<open>IOError\<close> is an alias of it). \<open>JSONDecodeError\<close> and
  \<open>UnicodeDecodeError\<close> are two distinct subclasses of \<open>ValueError\<close>.
  \<open>KeyboardInterrupt\<close> derives from \<^verbatim>\<open>BaseException\<close> only; every other class
  here derives from \<^verbatim>\<open>Exception\<close>.
\<close>

datatype py_exn =
    KeyboardInterrupt
  | OSError string
  | ValueError string
  | JSONDecodeError string
  | UnicodeDecodeError string
  | TypeError string
  | RecursionError string
  | CalledProcessError int "string list" string string

fun is_OSError :: "py_exn \<Rightarrow> bool" where
  "is_OSError (OSError m) = True"
| "is_OSError e = False"

fun is_JSONDecodeError :: "py_exn \<Rightarrow> bool" where
  "is_JSONDecodeError (JSONDecodeError m) = True"
| "is_JSONDecodeError e = False"

fun is_ValueError :: "py_exn \<Rightarrow> bool" where
  "is_ValueError (ValueError m) = True"
| "is_ValueError (JSONDecodeError m) = True"
| "is_ValueError (UnicodeDecodeError m) = True"
| "is_ValueError e = False"

fun is_CalledProcessError :: "py_exn \<Rightarrow> bool" where
  "is_CalledProcessError (CalledProcessError rc cmd out err) = True"
| "is_CalledProcessError e = False"

fun is_Exception :: "py_exn \<Rightarrow> bool" where
  "is_Exception KeyboardInterrupt = False"
| "is_Exception e = True"

fun exn_stderr :: "py_exn \<Rightarrow> string" where
  "exn_stderr (CalledProcessError rc cmd out err) = err"
| "exn_stderr e = []"

text \<open>A \<^verbatim>\<open>pathlib.Path\<close> is the list of its parts; \<open>path_join p c\<close> is \<^verbatim>\<open>p / c\<close>.\<close>

type_synonym path = "string list"

definition path_join :: "path \<Rightarrow> string \<Rightarrow> path" where
  "path_join p c = p @ [c]"

text \<open>
  \<^verbatim>\<open>len(config)\<close>: a dict, a list and a string have a length, the other JSON values
  raise \<^verbatim>\<open>TypeError\<close>.
\<close>

fun py_len :: "json \<Rightarrow> py_exn + int" where
  "py_len (JDict kvs) = Inr (int (length kvs))"
| "py_len (JList xs) = Inr (int (length xs))"
| "py_len (JStr s) = Inr (int (length s))"
| "py_len v = Inl (TypeError ''object has no len()'')"

text \<open>\<^verbatim>\<open>sep.join(xs)\<close> and \<^verbatim>\<open>s.strip()\<close>, on ASCII text.\<close>

fun join :: "string \<Rightarrow> string list \<Rightarrow> string" where
  "join sep [] = []"
| "join sep [x] = x"
| "join sep (x # y # ys) = x @ sep @ join sep (y # ys)"

definition py_isspace :: "char \<Rightarrow> bool" where
  "py_isspace c = (of_char c \<in> {9, 10, 11, 12, 13, 28, 29, 30, 31, 32 :: nat})"

definition strip :: "string \<Rightarrow> string" where
  "strip s = rev (dropWhile py_isspace (rev (dropWhile py_isspace s)))"

subsection \<open>The log and the state\<close>

datatype log_level = DEBUG | INFO | WARNING | ERROR | CRITICAL

fun level_num :: "log_level \<Rightarrow> nat" where
  "level_num DEBUG = 10"
| "level_num INFO = 20"
| "level_num WARNING = 30"
| "level_num ERROR = 40"
| "level_num CRITICAL = 50"

text \<open>
  A log record keeps the level, the format string and the arguments of the logging
  call, as \<^verbatim>\<open>logging.LogRecord\<close> does.
\<close>

datatype log_arg = AStr string | AInt int | APath path | AExn py_exn

type_synonym log_record = "log_level \<times> string \<times> log_arg list"

text \<open>
  \<open>root_level\<close> is the threshold of the root logger, \<open>log_records\<close> the records
  emitted so far, \<open>spawned\<close> the external commands started so far (with their working
  directory), \<open>printed_traces\<close> the exceptions whose stack trace
  \<^verbatim>\<open>traceback.print_exc()\<close> has printed.
\<close>

record state =
  root_level :: log_level
  log_records :: "log_record list"
  spawned :: "(string list \<times> path option) list"
  printed_traces :: "py_exn list"

definition enabled :: "log_level \<Rightarrow> state \<Rightarrow> bool" where
  "enabled lv st = (level_num (root_level st) \<le> level_num lv)"

text \<open>A logging call emits its record when its level reaches the threshold.\<close>

definition emit :: "log_level \<Rightarrow> string \<Rightarrow> log_arg list \<Rightarrow> state \<Rightarrow> state" where
  "emit lv msg as st =
     (if enabled lv st then st\<lparr>log_records := log_records st @ [(lv, msg, as)]\<rparr> else st)"

definition logger_debug :: "string \<Rightarrow> log_arg list \<Rightarrow> state \<Rightarrow> state" where
  "logger_debug = emit DEBUG"

definition logger_info :: "string \<Rightarrow> log_arg list \<Rightarrow> state \<Rightarrow> state" where
  "logger_info = emit INFO"

definition logger_warning :: "string \<Rightarrow> log_arg list \<Rightarrow> state \<Rightarrow> state" where
  "logger_warning = emit WARNING"

definition logger_error :: "string \<Rightarrow> log_arg list \<Rightarrow> state \<Rightarrow> state" where
  "logger_error = emit ERROR"

definition print_exc :: "py_exn \<Rightarrow> state \<Rightarrow> state" where
  "print_exc e st = st\<lparr>printed_traces := printed_traces st @ [e]\<rparr>"

subsection \<open>The environment\<close>

text \<open>
  \<^verbatim>\<open>sys.version_info\<close> is the tuple (major, minor, micro, releaselevel, serial).
\<close>

record version_info =
  major :: int
  minor :: int
  micro :: int
  releaselevel :: string
  serial :: int

text \<open>The ordering of Python tuples: lexicographic, a proper prefix is smaller.\<close>

fun tuple_lt :: "int list \<Rightarrow> int list \<Rightarrow> bool" where
  "tuple_lt [] [] = False"
| "tuple_lt [] (y # ys) = True"
| "tuple_lt (x # xs) [] = False"
| "tuple_lt (x # xs) (y # ys) = (if x = y then tuple_lt xs ys else x < y)"

text \<open>
  How an external process ends under \<^verbatim>\<open>subprocess.run\<close>: the call itself raises
  (the program is not found, say), or the process finishes with a return code and its
  captured standard output and standard error.
\<close>

datatype proc_outcome = Run_raised py_exn | Finished int string string

text \<open>
  \<open>path_exists\<close> is \<^verbatim>\<open>Path.exists\<close>, \<open>open_file\<close> is \<^verbatim>\<open>open(p, 'r',
  encoding='utf-8')\<close> and yields the file, \<open>json_load\<close> is \<^verbatim>\<open>json.load\<close> on that
  file (it reads, decodes and parses), \<open>run_process\<close> runs a command in a working
  directory. Each of them can raise.
\<close>

type_synonym text_file = string

record env =
  sys_version_info :: version_info
  home :: path
  path_exists :: "path \<Rightarrow> py_exn + bool"
  open_file :: "path \<Rightarrow> py_exn + text_file"
  json_load :: "text_file \<Rightarrow> py_exn + json"
  run_process :: "string list \<Rightarrow> path option \<Rightarrow> proc_outcome"

subsection \<open>The functions of the script\<close>

text \<open>
  \<^verbatim>\<open>setup_logging\<close>: \<^verbatim>\<open>logging.basicConfig\<close> sets the threshold of the root
  logger, in a process that has not configured logging before.
\<close>

definition setup_logging :: "bool \<Rightarrow> state \<Rightarrow> state" where
  "setup_logging verbose st = st\<lparr>root_level := (if verbose then DEBUG else INFO)\<rparr>"

definition check_requirements :: "env \<Rightarrow> state \<Rightarrow> bool \<times> state" where
  "check_requirements env st =
     (let v = sys_version_info env in
      if tuple_lt [major v, minor v, micro v] [3, 8]
      then (False, logger_error ''Python 3.8 or higher is required'' [] st)
      else (True, logger_debug ''All requirements satisfied'' [] st))"

record completed_process =
  cp_args :: "string list"
  returncode :: int
  stdout :: string
  stderr :: string

text \<open>
  \<^verbatim>\<open>subprocess.run(command, cwd=cwd, capture_output=True, text=True, check=True)\<close>:
  with \<^verbatim>\<open>check=True\<close> a non-zero return code is raised as
  \<^verbatim>\<open>CalledProcessError\<close>, which carries the captured output.
\<close>

definition subprocess_run ::
  "env \<Rightarrow> string list \<Rightarrow> path option \<Rightarrow> state \<Rightarrow> (py_exn + completed_process) \<times> state" where
  "subprocess_run env command cwd st =
     (let st' = st\<lparr>spawned := spawned st @ [(command, cwd)]\<rparr> in
      case run_process env command cwd of
        Run_raised e \<Rightarrow> (Inl e, st')
      | Finished rc out err \<Rightarrow>
          if rc \<noteq> 0 then (Inl (CalledProcessError rc command out err), st')
          else (Inr \<lparr>cp_args = command, returncode = rc, stdout = out, stderr = err\<rparr>, st'))"

definition run_command ::
  "env \<Rightarrow> string list \<Rightarrow> path option \<Rightarrow> state \<Rightarrow> (py_exn + completed_process) \<times> state" where
  "run_command env command cwd st =
     (let st1 = logger_debug ''Running command: %s'' [AStr (join '' '' command)] st in
      case subprocess_run env command cwd st1 of
        (Inr result, st2) \<Rightarrow>
          (Inr result, logger_debug ''Command output: %s'' [AStr (strip (stdout result))] st2)
      | (Inl e, st2) \<Rightarrow>
          if is_CalledProcessError e
          then (Inl e, logger_error ''stderr: %s'' [AStr (exn_stderr e)]
                         (logger_error ''Command failed: %s'' [AExn e] st2))
          else (Inl e, st2))"

text \<open>
  \<^verbatim>\<open>load_config\<close>. The existence test stands before the \<^verbatim>\<open>try\<close>; opening and
  parsing stand inside it, under the handlers for \<^verbatim>\<open>json.JSONDecodeError\<close> and
  for \<^verbatim>\<open>(OSError, IOError)\<close>, in this order. Any other exception leaves the function.
\<close>

definition load_config :: "env \<Rightarrow> path \<Rightarrow> state \<Rightarrow> (py_exn + json) \<times> state" where
  "load_config env config_path st =
     (case path_exists env config_path of
        Inl e \<Rightarrow> (Inl e, st)
      | Inr ex \<Rightarrow>
          if \<not> ex
          then (Inr (JDict []),
                logger_warning ''Configuration file %s not found, using defaults''
                  [APath config_path] st)
          else
            (case (case open_file env config_path of
                     Inl e \<Rightarrow> Inl e
                   | Inr f \<Rightarrow> json_load env f) of
               Inr config \<Rightarrow>
                 (Inr config,
                  logger_debug ''Loaded configuration from %s'' [APath config_path] st)
             | Inl e \<Rightarrow>
                 if is_JSONDecodeError e
                 then (Inr (JDict []),
                       logger_error ''Invalid JSON in configuration file %s: %s''
                         [APath config_path, AExn e] st)
                 else if is_OSError e
                 then (Inr (JDict []),
                       logger_error ''Error reading configuration file %s: %s''
                         [APath config_path, AExn e] st)
                 else (Inl e, st)))"

text \<open>
  The namespace that \<^verbatim>\<open>parser.parse_args()\<close> returns: the two \<^verbatim>\<open>store_true\<close>
  flags and the configuration path. With no arguments it holds the declared defaults.
\<close>

record namespace =
  verbose :: bool
  dry_run :: bool
  config :: path

definition default_args :: "env \<Rightarrow> namespace" where
  "default_args env =
     \<lparr>verbose = False, dry_run = False,
      config = path_join (path_join (home env) ''.config'') ''{{SCRIPT_NAME}}.json''\<rparr>"

text \<open>The statements of \<^verbatim>\<open>main\<close> before its \<^verbatim>\<open>try\<close>, after the parsing.\<close>

definition main_start :: "namespace \<Rightarrow> state \<Rightarrow> state" where
  "main_start a st = logger_info ''Starting {{SCRIPT_NAME}}'' [] (setup_logging (verbose a) st)"

text \<open>The body of the \<^verbatim>\<open>try\<close> block: \<open>Inr n\<close> is \<^verbatim>\<open>return n\<close>.\<close>

definition main_try :: "env \<Rightarrow> namespace \<Rightarrow> state \<Rightarrow> (py_exn + int) \<times> state" where
  "main_try env a st =
     (case check_requirements env st of
        (False, st1) \<Rightarrow> (Inr 1, logger_error ''Requirements check failed'' [] st1)
      | (True, st1) \<Rightarrow>
          (case load_config env (config a) st1 of
             (Inl e, st2) \<Rightarrow> (Inl e, st2)
           | (Inr cfg, st2) \<Rightarrow>
               (case py_len cfg of
                  Inl e \<Rightarrow> (Inl e, st2)
                | Inr n \<Rightarrow>
                    (let st3 = logger_debug ''Loaded config with %d entries'' [AInt n] st2;
                         st4 = (if dry_run a
                                then logger_info ''DRY RUN MODE - No changes will be made'' [] st3
                                else st3);
                         st5 = logger_info ''Script logic not yet implemented'' [] st4;
                         st6 = logger_info ''{{SCRIPT_NAME}} completed successfully'' [] st5
                     in (Inr 0, st6)))))"

text \<open>
  \<^verbatim>\<open>main\<close>, from the parsed arguments on: the handlers of the \<^verbatim>\<open>try\<close> block in
  their order. \<open>Inl e\<close> is an exception that leaves \<^verbatim>\<open>main\<close>.
\<close>

definition main :: "env \<Rightarrow> namespace \<Rightarrow> state \<Rightarrow> (py_exn + int) \<times> state" where
  "main env a st0 =
     (case main_try env a (main_start a st0) of
        (Inr n, st) \<Rightarrow> (Inr n, st)
      | (Inl e, st) \<Rightarrow>
          if e = KeyboardInterrupt
          then (Inr 130, logger_warning ''Script interrupted by user'' [] st)
          else if is_OSError e \<or> is_ValueError e
          then (let st1 = logger_error ''Handled error: %s'' [AExn e] st
                in (Inr 1, if verbose a then print_exc e st1 else st1))
          else if is_Exception e
          then (let st1 = logger_error ''Unexpected error: %s'' [AExn e] st
                in (Inl e, if verbose a then print_exc e st1 else st1))
          else (Inl e, st))"

text \<open>
  The end of the process under \<^verbatim>\<open>sys.exit(main())\<close>: \<open>Exited n\<close> when \<^verbatim>\<open>main\<close>
  returns \<open>n\<close>; \<open>Uncaught e\<close> when \<open>e\<close> leaves \<^verbatim>\<open>main\<close>, where the interpreter prints
  the stack trace of \<open>e\<close> and ends the process with a non-zero status.
\<close>

datatype process_end = Exited int | Uncaught py_exn

fun nonzero_exit :: "process_end \<Rightarrow> bool" where
  "nonzero_exit (Exited n) = (n \<noteq> 0)"
| "nonzero_exit (Uncaught e) = True"

definition script :: "env \<Rightarrow> namespace \<Rightarrow> state \<Rightarrow> process_end \<times> state" where
  "script env a st0 =
     (case main env a st0 of
        (Inr n, st) \<Rightarrow> (Exited n, st)
      | (Inl e, st) \<Rightarrow> (Uncaught e, st))"

subsection \<open>An interrupt delivered at a statement of \<^verbatim>\<open>main\<close>\<close>

text \<open>
  The user's interrupt arrives while some statement of the script runs, and
  \<^verbatim>\<open>KeyboardInterrupt\<close> is raised there. The statements are named by what they do:
  the three before the \<^verbatim>\<open>try\<close> block (lines 152, 155 and 156), the seven inside
  it (lines 160, 161, 165, 169, 172, 187 and 193), the body of whichever
  \<^verbatim>\<open>except\<close> handler is entered (lines 197 to 207), and the call of
  \<^verbatim>\<open>sys.exit\<close> on the value that \<^verbatim>\<open>main\<close> returned (line 212).
\<close>

datatype point =
    Parse_args
  | Setup_logging
  | Log_start
  | Check_requirements
  | Log_requirements_failed
  | Load_config
  | Len_config
  | Log_dry_run
  | Log_not_implemented
  | Log_completed
  | Handler
  | Sys_exit

text \<open>The statements that stand inside the \<^verbatim>\<open>try\<close> block.\<close>

fun in_try :: "point \<Rightarrow> bool" where
  "in_try Check_requirements = True"
| "in_try Log_requirements_failed = True"
| "in_try Load_config = True"
| "in_try Len_config = True"
| "in_try Log_dry_run = True"
| "in_try Log_not_implemented = True"
| "in_try Log_completed = True"
| "in_try pt = False"

text \<open>
  The body of the \<^verbatim>\<open>try\<close> block, with the interrupt raised when control reaches the
  statement \<open>pt\<close>, in place of that statement. The second component tells whether
  the interrupt has been delivered: a run that never reaches \<open>pt\<close> is not interrupted.
\<close>

definition main_try_at ::
  "env \<Rightarrow> namespace \<Rightarrow> point \<Rightarrow> state \<Rightarrow> ((py_exn + int) \<times> state) \<times> bool" where
  "main_try_at env a pt st =
     (if pt = Check_requirements then ((Inl KeyboardInterrupt, st), True)
      else
        (case check_requirements env st of
           (False, st1) \<Rightarrow>
             if pt = Log_requirements_failed then ((Inl KeyboardInterrupt, st1), True)
             else ((Inr 1, logger_error ''Requirements check failed'' [] st1), False)
         | (True, st1) \<Rightarrow>
             if pt = Load_config then ((Inl KeyboardInterrupt, st1), True)
             else
               (case load_config env (config a) st1 of
                  (Inl e, st2) \<Rightarrow> ((Inl e, st2), False)
                | (Inr cfg, st2) \<Rightarrow>
                    if pt = Len_config then ((Inl KeyboardInterrupt, st2), True)
                    else
                      (case py_len cfg of
                         Inl e \<Rightarrow> ((Inl e, st2), False)
                       | Inr n \<Rightarrow>
                           (let st3 = logger_debug ''Loaded config with %d entries'' [AInt n] st2
                            in if dry_run a \<and> pt = Log_dry_run
                               then ((Inl KeyboardInterrupt, st3), True)
                               else
                                 (let st4 = (if dry_run a
                                             then logger_info
                                                    ''DRY RUN MODE - No changes will be made'' [] st3
                                             else st3)
                                  in if pt = Log_not_implemented
                                     then ((Inl KeyboardInterrupt, st4), True)
                                     else
                                       (let st5 = logger_info
                                                    ''Script logic not yet implemented'' [] st4
                                        in if pt = Log_completed
                                           then ((Inl KeyboardInterrupt, st5), True)
                                           else
                                             ((Inr 0,
                                               logger_info
                                                 ''{{SCRIPT_NAME}} completed successfully'' []
                                                 st5),
                                              False))))))))"

text \<open>
  \<^verbatim>\<open>main\<close> with the interrupt raised at \<open>pt\<close>. Before the \<^verbatim>\<open>try\<close> block
  no handler is in force. An exception raised inside the body of a handler leaves the
  \<^verbatim>\<open>try\<close> statement: the other handlers do not apply to it.
\<close>

definition main_at ::
  "env \<Rightarrow> namespace \<Rightarrow> point \<Rightarrow> state \<Rightarrow> ((py_exn + int) \<times> state) \<times> bool" where
  "main_at env a pt st0 =
     (if pt = Parse_args then ((Inl KeyboardInterrupt, st0), True)
      else if pt = Setup_logging then ((Inl KeyboardInterrupt, st0), True)
      else
        (let st1 = setup_logging (verbose a) st0
         in if pt = Log_start then ((Inl KeyboardInterrupt, st1), True)
            else
              (case main_try_at env a pt (logger_info ''Starting {{SCRIPT_NAME}}'' [] st1) of
                 ((Inr n, st), d) \<Rightarrow> ((Inr n, st), d)
               | ((Inl e, st), d) \<Rightarrow>
                   if e = KeyboardInterrupt
                   then (if pt = Handler then ((Inl KeyboardInterrupt, st), True)
                         else ((Inr 130, logger_warning ''Script interrupted by user'' [] st), d))
                   else if is_OSError e \<or> is_ValueError e
                   then (if pt = Handler then ((Inl KeyboardInterrupt, st), True)
                         else (let st1 = logger_error ''Handled error: %s'' [AExn e] st
                               in ((Inr 1, if verbose a then print_exc e st1 else st1), d)))
                   else if is_Exception e
                   then (if pt = Handler then ((Inl KeyboardInterrupt, st), True)
                         else (let st1 = logger_error ''Unexpected error: %s'' [AExn e] st
                               in ((Inl e, if verbose a then print_exc e st1 else st1), d)))
                   else ((Inl e, st), d))))"

text \<open>
  The end of the process with the interrupt raised at \<open>pt\<close>. An interrupt at the call
  of \<^verbatim>\<open>sys.exit\<close> is raised at the top level of the module, where nothing catches it.
\<close>

definition script_at ::
  "env \<Rightarrow> namespace \<Rightarrow> point \<Rightarrow> state \<Rightarrow> (process_end \<times> state) \<times> bool" where
  "script_at env a pt st0 =
     (case main_at env a pt st0 of
        ((Inr n, st), d) \<Rightarrow>
          if pt = Sys_exit then ((Uncaught KeyboardInterrupt, st), True)
          else ((Exited n, st), d)
      | ((Inl e, st), d) \<Rightarrow> ((Uncaught e, st), d))"

text \<open>The dry-run notice, and how many times a record stands in the log.\<close>

definition dry_run_record :: log_record where
  "dry_run_record = (INFO, ''DRY RUN MODE - No changes will be made'', [])"

definition times_logged :: "log_record \<Rightarrow> state \<Rightarrow> nat" where
  "times_logged r st = count_list (log_records st) r"

subsection \<open>A sample environment\<close>

text \<open>
  A small world to run the script in: five configuration files, a JSON parser that knows
  their contents, and three commands. The file \<^verbatim>\<open>binary.json\<close> holds the single byte
  \<^verbatim>\<open>0xFF\<close>, which is not UTF-8: reading it under \<^verbatim>\<open>encoding='utf-8'\<close> raises
  \<^verbatim>\<open>UnicodeDecodeError\<close>.
\<close>

definition supported_version :: version_info where
  "supported_version =
     \<lparr>major = 3, minor = 11, micro = 10, releaselevel = ''final'', serial = 0\<rparr>"

definition old_version :: version_info where
  "old_version =
     \<lparr>major = 3, minor = 7, micro = 9, releaselevel = ''final'', serial = 0\<rparr>"

definition sample_files :: "(path \<times> text_file) list" where
  \<open>sample_files =
     [([''/'', ''etc'', ''app.json''], ''{"timeout": 30}''),
      ([''/'', ''etc'', ''list.json''], ''[1, 2]''),
      ([''/'', ''etc'', ''five.json''], ''5''),
      ([''/'', ''etc'', ''broken.json''], ''{''),
      ([''/'', ''etc'', ''binary.json''], [CHR 0xFF])]\<close>

definition sample_json_load :: "text_file \<Rightarrow> py_exn + json" where
  \<open>sample_json_load c =
     (if c = ''{"timeout": 30}'' then Inr (JDict [(''timeout'', JInt 30)])
      else if c = ''[1, 2]'' then Inr (JList [JInt 1, JInt 2])
      else if c = ''5'' then Inr (JInt 5)
      else if c = [CHR 0xFF] then Inl (UnicodeDecodeError ''invalid start byte'')
      else Inl (JSONDecodeError ''Expecting value''))\<close>

definition sample_run_process :: "string list \<Rightarrow> path option \<Rightarrow> proc_outcome" where
  "sample_run_process command cwd =
     (if command = [''true''] then Finished 0 [] []
      else if command = [''echo'', ''hi''] then Finished 0 ''hi'' []
      else if command = [''ls'', ''/missing''] then Finished 2 [] ''ls: cannot access /missing''
      else Run_raised (OSError ''No such file or directory''))"

definition sample_env :: env where
  "sample_env =
     \<lparr>sys_version_info = supported_version,
      home = [''/'', ''home'', ''user''],
      path_exists = (\<lambda>p. Inr (map_of sample_files p \<noteq> None)),
      open_file = (\<lambda>p. case map_of sample_files p of
                          None \<Rightarrow> Inl (OSError ''No such file or directory'')
                        | Some c \<Rightarrow> Inr c),
      json_load = sample_json_load,
      run_process = sample_run_process\<rparr>"

text \<open>The same world under an interpreter older than 3.8.\<close>

definition legacy_env :: env where
  "legacy_env = sample_env\<lparr>sys_version_info := old_version\<rparr>"

text \<open>The same world with the user interrupting while the configuration is parsed.\<close>

definition interrupted_env :: env where
  "interrupted_env = sample_env\<lparr>json_load := (\<lambda>c. Inl KeyboardInterrupt)\<rparr>"

text \<open>A process that has not logged, started a command or printed a trace yet.\<close>

definition fresh_state :: state where
  "fresh_state = \<lparr>root_level = WARNING, log_records = [], spawned = [], printed_traces = []\<rparr>"

definition is_dict :: "json \<Rightarrow> bool" where
  "is_dict v = (case v of JDict kvs \<Rightarrow> True | _ \<Rightarrow> False)"

text \<open>The format strings of a log, in order.\<close>

definition messages :: "state \<Rightarrow> string list" where
  "messages st = map (\<lambda>r. fst (snd r)) (log_records st)"

section \<open>Properties\<close>

subsection \<open>What a logging call changes\<close>

lemma emit_root_level [simp]: "root_level (emit lv m as st) = root_level st"
  by (simp add: emit_def)

lemma emit_spawned [simp]: "spawned (emit lv m as st) = spawned st"
  by (simp add: emit_def)

lemma emit_printed_traces [simp]: "printed_traces (emit lv m as st) = printed_traces st"
  by (simp add: emit_def)

lemma emit_enabled [simp]: "enabled lv' (emit lv m as st) = enabled lv' st"
  by (simp add: enabled_def)

lemma emit_log_records:
  "log_records (emit lv m as st) = log_records st @ (if enabled lv st then [(lv, m, as)] else [])"
  by (simp add: emit_def)

lemmas logger_defs = logger_debug_def logger_info_def logger_warning_def logger_error_def

lemmas sample_defs = sample_env_def sample_files_def sample_json_load_def
  sample_run_process_def supported_version_def old_version_def legacy_env_def
  interrupted_env_def fresh_state_def default_args_def path_join_def

lemmas script_defs = script_def main_def main_try_def main_start_def setup_logging_def
  check_requirements_def load_config_def logger_defs emit_def enabled_def print_exc_def
  messages_def Let_def

lemma setup_logging_enabled [simp]:
  "enabled INFO (setup_logging v st)" "enabled WARNING (setup_logging v st)"
  "enabled ERROR (setup_logging v st)" "enabled DEBUG (setup_logging v st) = v"
  by (simp_all add: setup_logging_def enabled_def)

lemma main_start_enabled [simp]:
  "enabled INFO (main_start a st)" "enabled WARNING (main_start a st)"
  "enabled ERROR (main_start a st)" "enabled DEBUG (main_start a st) = verbose a"
  by (simp_all add: main_start_def logger_defs)

lemma main_start_fields [simp]:
  "spawned (main_start a st) = spawned st"
  "printed_traces (main_start a st) = printed_traces st"
  by (simp_all add: main_start_def logger_defs setup_logging_def)

lemma main_start_log_records:
  "log_records (main_start a st) = log_records st @ [(INFO, ''Starting {{SCRIPT_NAME}}'', [])]"
  by (simp add: main_start_def logger_defs emit_log_records) (simp add: setup_logging_def)

subsection \<open>The functions keep what they do not touch\<close>

lemma check_requirements_keeps [simp]:
  "root_level (snd (check_requirements env st)) = root_level st"
  "spawned (snd (check_requirements env st)) = spawned st"
  "printed_traces (snd (check_requirements env st)) = printed_traces st"
  "enabled lv (snd (check_requirements env st)) = enabled lv st"
  by (simp_all add: check_requirements_def Let_def logger_defs)

lemma load_config_keeps [simp]:
  "root_level (snd (load_config env p st)) = root_level st"
  "spawned (snd (load_config env p st)) = spawned st"
  "printed_traces (snd (load_config env p st)) = printed_traces st"
  "enabled lv (snd (load_config env p st)) = enabled lv st"
  by (simp_all add: load_config_def logger_defs split: sum.splits)

lemma main_try_keeps [simp]:
  "spawned (snd (main_try env a st)) = spawned st"
  "printed_traces (snd (main_try env a st)) = printed_traces st"
  "enabled lv (snd (main_try env a st)) = enabled lv st"
proof -
  obtain ok st1 where c: "check_requirements env st = (ok, st1)"
    by (cases "check_requirements env st")
  obtain r st2 where l: "load_config env (config a) st1 = (r, st2)"
    by (cases "load_config env (config a) st1")
  have k1: "spawned st1 = spawned st" "printed_traces st1 = printed_traces st"
    "\<And>lv. enabled lv st1 = enabled lv st"
    using check_requirements_keeps [where env = env and st = st] by (simp_all add: c)
  have k2: "spawned st2 = spawned st1" "printed_traces st2 = printed_traces st1"
    "\<And>lv. enabled lv st2 = enabled lv st1"
    using load_config_keeps [where env = env and p = "config a" and st = st1]
    by (simp_all add: l)
  show "spawned (snd (main_try env a st)) = spawned st"
    by (simp add: main_try_def c l k1 k2 Let_def logger_defs split: bool.splits sum.splits)
  show "printed_traces (snd (main_try env a st)) = printed_traces st"
    by (simp add: main_try_def c l k1 k2 Let_def logger_defs split: bool.splits sum.splits)
  show "enabled lv (snd (main_try env a st)) = enabled lv st"
    by (simp add: main_try_def c l k1 k2 Let_def logger_defs split: bool.splits sum.splits)
qed

lemma main_spawned: "spawned (snd (main env a st0)) = spawned st0"
proof (cases "main_try env a (main_start a st0)")
  case (Pair r st)
  have "spawned st = spawned st0"
    using main_try_keeps(1) [of env a "main_start a st0"] by (simp add: Pair)
  then show ?thesis
    by (cases r) (simp_all add: main_def Pair Let_def logger_defs print_exc_def)
qed

lemma version_lt_3_8:
  "tuple_lt [major v, minor v, micro v] [3, 8] = (major v < 3 \<or> (major v = 3 \<and> minor v < 8))"
  by auto

subsection \<open>The configuration loader\<close>

text \<open>The three failures that \<open>load_config\<close> absorbs, each with its log call.\<close>

lemma load_config_absent:
  "path_exists env p = Inr False \<Longrightarrow>
   load_config env p st =
     (Inr (JDict []),
      logger_warning ''Configuration file %s not found, using defaults'' [APath p] st)"
  by (simp add: load_config_def)

lemma load_config_unreadable:
  "path_exists env p = Inr True \<Longrightarrow> open_file env p = Inl (OSError m) \<Longrightarrow>
   load_config env p st =
     (Inr (JDict []),
      logger_error ''Error reading configuration file %s: %s'' [APath p, AExn (OSError m)] st)"
  by (simp add: load_config_def)

lemma load_config_invalid_json:
  "path_exists env p = Inr True \<Longrightarrow> open_file env p = Inr f \<Longrightarrow>
   json_load env f = Inl (JSONDecodeError m) \<Longrightarrow>
   load_config env p st =
     (Inr (JDict []),
      logger_error ''Invalid JSON in configuration file %s: %s''
        [APath p, AExn (JSONDecodeError m)] st)"
  by (simp add: load_config_def)

text \<open>
  An exception of any other class leaves \<open>load_config\<close>, and nothing is logged: neither
  handler matches it.
\<close>

lemma load_config_propagates:
  "path_exists env p = Inr True \<Longrightarrow> open_file env p = Inr f \<Longrightarrow> json_load env f = Inl e \<Longrightarrow>
   \<not> is_JSONDecodeError e \<Longrightarrow> \<not> is_OSError e \<Longrightarrow> load_config env p st = (Inl e, st)"
  by (simp add: load_config_def)

text \<open>
  C1. The loader is claimed never to raise: an absent, unreadable or invalid file gives
  the empty mapping. Here the configuration file holds the byte \<^verbatim>\<open>0xFF\<close>, which is
  not UTF-8 and so not JSON. The file exists and opens; reading it raises
  \<^verbatim>\<open>UnicodeDecodeError\<close>, a \<open>ValueError\<close> that is neither a \<open>JSONDecodeError\<close> nor an
  \<open>OSError\<close>, and the exception leaves \<open>load_config\<close> with nothing logged.
\<close>

theorem load_config_undecodable_file:
  "path_exists sample_env [''/'', ''etc'', ''binary.json''] = Inr True \<and>
   open_file sample_env [''/'', ''etc'', ''binary.json''] = Inr [CHR 0xFF] \<and>
   json_load sample_env [CHR 0xFF] = Inl (UnicodeDecodeError ''invalid start byte'') \<and>
   load_config sample_env [''/'', ''etc'', ''binary.json''] fresh_state =
     (Inl (UnicodeDecodeError ''invalid start byte''), fresh_state)"
  by (simp add: load_config_def sample_env_def sample_files_def sample_json_load_def)

text \<open>
  C6. When the file exists, opens and parses to a JSON object, \<open>load_config\<close> returns
  that mapping, with the same keys and values in the same order, and does not raise.
\<close>

theorem load_config_object:
  assumes "path_exists env p = Inr True" and "open_file env p = Inr f"
    and "json_load env f = Inr (JDict kvs)"
  shows "fst (load_config env p st) = Inr (JDict kvs)"
  using assms by (simp add: load_config_def)

text \<open>The file \<^verbatim>\<open>app.json\<close> of the sample environment is loaded as it is.\<close>

theorem load_config_object_witness:
  \<open>path_exists sample_env [''/'', ''etc'', ''app.json''] = Inr True \<and>
   open_file sample_env [''/'', ''etc'', ''app.json''] = Inr ''{"timeout": 30}'' \<and>
   json_load sample_env ''{"timeout": 30}'' = Inr (JDict [(''timeout'', JInt 30)]) \<and>
   fst (load_config sample_env [''/'', ''etc'', ''app.json''] fresh_state) =
     Inr (JDict [(''timeout'', JInt 30)])\<close>
  using load_config_object [of sample_env "[''/'', ''etc'', ''app.json'']"
      \<open>''{"timeout": 30}''\<close> "[(''timeout'', JInt 30)]" fresh_state]
  by (simp add: sample_defs)

text \<open>
  C10. \<open>load_config\<close> does not check that the parsed value is a mapping: when the file
  parses to a value that is not an object, that value is returned unchanged, which is
  neither the empty mapping nor an exception.
\<close>

theorem load_config_non_mapping:
  assumes "path_exists env p = Inr True" and "open_file env p = Inr f"
    and "json_load env f = Inr v" and "\<not> is_dict v"
  shows "fst (load_config env p st) = Inr v \<and> fst (load_config env p st) \<noteq> Inr (JDict [])"
  using assms by (auto simp add: load_config_def is_dict_def)

text \<open>The file \<^verbatim>\<open>list.json\<close> holds an array, and the array is what comes back.\<close>

theorem load_config_non_mapping_witness:
  "path_exists sample_env [''/'', ''etc'', ''list.json''] = Inr True \<and>
   open_file sample_env [''/'', ''etc'', ''list.json''] = Inr ''[1, 2]'' \<and>
   json_load sample_env ''[1, 2]'' = Inr (JList [JInt 1, JInt 2]) \<and>
   \<not> is_dict (JList [JInt 1, JInt 2]) \<and>
   fst (load_config sample_env [''/'', ''etc'', ''list.json''] fresh_state) =
     Inr (JList [JInt 1, JInt 2])"
  using load_config_non_mapping [of sample_env "[''/'', ''etc'', ''list.json'']"
      "''[1, 2]''" "JList [JInt 1, JInt 2]" fresh_state]
  by (simp add: sample_defs is_dict_def)

subsection \<open>The requirements check\<close>

text \<open>
  C5. \<open>check_requirements\<close> returns \<open>False\<close> exactly when the interpreter is older than
  3.8, that is when its major version is below 3, or is 3 with a minor version below 8.
  The state it returns is the one it was given with at most one record added to the log.
\<close>

theorem check_requirements_version:
  "(fst (check_requirements env st) = False) =
     (major (sys_version_info env) < 3 \<or>
      (major (sys_version_info env) = 3 \<and> minor (sys_version_info env) < 8)) \<and>
   (\<exists>r. length r \<le> 1 \<and>
        snd (check_requirements env st) = st\<lparr>log_records := log_records st @ r\<rparr>)"
proof -
  have e: "\<exists>r. length r \<le> 1 \<and> emit lv m as st = st\<lparr>log_records := log_records st @ r\<rparr>"
    for lv m as
  proof (cases "enabled lv st")
    case True
    then have "length [(lv, m, as)] \<le> 1 \<and>
        emit lv m as st = st\<lparr>log_records := log_records st @ [(lv, m, as)]\<rparr>"
      by (simp add: emit_def)
    then show ?thesis by blast
  next
    case False
    then have "length ([] :: log_record list) \<le> 1 \<and>
        emit lv m as st = st\<lparr>log_records := log_records st @ []\<rparr>"
      by (simp add: emit_def)
    then show ?thesis by blast
  qed
  show ?thesis
    using e [of ERROR "''Python 3.8 or higher is required''" "[]"]
      e [of DEBUG "''All requirements satisfied''" "[]"]
    by (simp add: check_requirements_def Let_def logger_defs version_lt_3_8)
qed

text \<open>Python 3.7.9 fails the check, Python 3.11.10 passes it.\<close>

theorem check_requirements_version_witness:
  "fst (check_requirements legacy_env fresh_state) = False \<and>
   fst (check_requirements sample_env fresh_state) = True"
  using check_requirements_version [of legacy_env fresh_state]
    check_requirements_version [of sample_env fresh_state]
  by (simp add: sample_defs)

subsection \<open>The command helper\<close>

text \<open>
  C4. When the external process ends with a non-zero return code, \<open>run_command\<close> raises
  the \<open>CalledProcessError\<close> of \<^verbatim>\<open>subprocess.run\<close> unchanged, with the return code, the
  command and both captured streams in it, after two error records: the failure, and
  the captured standard error. The records are emitted when the logger lets errors through.
\<close>

theorem run_command_failure:
  assumes "run_process env command cwd = Finished rc out err" and "rc \<noteq> 0"
    and "enabled ERROR st"
  shows "fst (run_command env command cwd st) = Inl (CalledProcessError rc command out err) \<and>
         log_records (snd (run_command env command cwd st)) =
           log_records (logger_debug ''Running command: %s'' [AStr (join '' '' command)] st) @
           [(ERROR, ''Command failed: %s'', [AExn (CalledProcessError rc command out err)]),
            (ERROR, ''stderr: %s'', [AStr err])]"
  using assms
  by (simp add: run_command_def subprocess_run_def Let_def logger_defs emit_log_records
      enabled_def)

text \<open>Listing a missing directory ends with return code 2.\<close>

theorem run_command_failure_witness:
  "run_process sample_env [''ls'', ''/missing''] None =
     Finished 2 [] ''ls: cannot access /missing'' \<and>
   (2::int) \<noteq> 0 \<and> enabled ERROR fresh_state \<and>
   fst (run_command sample_env [''ls'', ''/missing''] None fresh_state) =
     Inl (CalledProcessError 2 [''ls'', ''/missing''] [] ''ls: cannot access /missing'') \<and>
   log_records (snd (run_command sample_env [''ls'', ''/missing''] None fresh_state)) =
     [(ERROR, ''Command failed: %s'',
       [AExn (CalledProcessError 2 [''ls'', ''/missing''] [] ''ls: cannot access /missing'')]),
      (ERROR, ''stderr: %s'', [AStr ''ls: cannot access /missing''])]"
  using run_command_failure [of sample_env "[''ls'', ''/missing'']" None 2 "[]"
      "''ls: cannot access /missing''" fresh_state]
  by (simp add: sample_defs enabled_def logger_defs emit_def)

text \<open>
  C9. When \<open>run_command\<close> returns a result, the process has ended with return code 0,
  and the result holds that return code and the standard output and standard error that
  were captured from the process.
\<close>

theorem run_command_returns:
  assumes "fst (run_command env command cwd st) = Inr result"
  shows "returncode result = 0 \<and>
         run_process env command cwd = Finished 0 (stdout result) (stderr result)"
  using assms
  by (auto simp add: run_command_def subprocess_run_def Let_def
      split: proc_outcome.splits if_splits)

text \<open>The command \<^verbatim>\<open>echo hi\<close> returns its output.\<close>

theorem run_command_returns_witness:
  "fst (run_command sample_env [''echo'', ''hi''] None fresh_state) =
     Inr \<lparr>cp_args = [''echo'', ''hi''], returncode = 0, stdout = ''hi'', stderr = []\<rparr> \<and>
   run_process sample_env [''echo'', ''hi''] None = Finished 0 ''hi'' []"
  using run_command_returns [of sample_env "[''echo'', ''hi'']" None fresh_state
      "\<lparr>cp_args = [''echo'', ''hi''], returncode = 0, stdout = ''hi'', stderr = []\<rparr>"]
  by (simp add: run_command_def subprocess_run_def sample_defs Let_def)

subsection \<open>The entry point\<close>

text \<open>
  Where an interrupt can surface inside the \<^verbatim>\<open>try\<close> block: on a supported interpreter,
  in the existence test, in opening the file, or in parsing it.
\<close>

lemma main_try_interrupt:
  assumes "\<not> tuple_lt [major (sys_version_info env), minor (sys_version_info env),
                        micro (sys_version_info env)] [3, 8]"
    and "path_exists env (config a) = Inl KeyboardInterrupt \<or>
         (path_exists env (config a) = Inr True \<and>
          (open_file env (config a) = Inl KeyboardInterrupt \<or>
           (\<exists>f. open_file env (config a) = Inr f \<and> json_load env f = Inl KeyboardInterrupt)))"
  shows "fst (main_try env a st) = Inl KeyboardInterrupt"
  using assms by (auto simp add: main_try_def check_requirements_def load_config_def Let_def)

text \<open>
  C2. Let an exception that is an error (an instance of \<^verbatim>\<open>Exception\<close>) leave the
  \<^verbatim>\<open>try\<close> block of \<open>main\<close>. If it is an \<open>OSError\<close> or a \<open>ValueError\<close>, \<open>main\<close>
  logs it as handled and returns 1, so the process exits with status 1, and
  \<^verbatim>\<open>traceback.print_exc()\<close> has printed its trace exactly when the verbose flag is
  set. Otherwise \<open>main\<close> logs it as unexpected and raises it again: it leaves \<open>main\<close>
  uncaught, and the process ends with the interpreter's stack trace and a non-zero status.
\<close>

theorem main_error_handling:
  assumes "fst (main_try env a (main_start a st0)) = Inl e" and "is_Exception e"
  shows "if is_OSError e \<or> is_ValueError e
         then fst (main env a st0) = Inr 1 \<and>
              fst (script env a st0) = Exited 1 \<and>
              last (log_records (snd (main env a st0))) =
                (ERROR, ''Handled error: %s'', [AExn e]) \<and>
              printed_traces (snd (main env a st0)) =
                printed_traces st0 @ (if verbose a then [e] else [])
         else fst (main env a st0) = Inl e \<and>
              fst (script env a st0) = Uncaught e \<and>
              nonzero_exit (fst (script env a st0)) \<and>
              last (log_records (snd (main env a st0))) =
                (ERROR, ''Unexpected error: %s'', [AExn e]) \<and>
              printed_traces (snd (main env a st0)) =
                printed_traces st0 @ (if verbose a then [e] else [])"
proof -
  obtain st where t: "main_try env a (main_start a st0) = (Inl e, st)"
    using assms(1) by (cases "main_try env a (main_start a st0)") simp
  have en: "enabled ERROR st"
    using main_try_keeps(3) [of ERROR env a "main_start a st0"] by (simp add: t)
  have tr: "printed_traces st = printed_traces st0"
    using main_try_keeps(2) [of env a "main_start a st0"] by (simp add: t)
  have ki: "e \<noteq> KeyboardInterrupt"
    using assms(2) by auto
  show ?thesis
  proof (cases "is_OSError e \<or> is_ValueError e")
    case True
    then show ?thesis
      using ki en tr
      by (simp add: main_def script_def t Let_def logger_defs emit_log_records print_exc_def)
  next
    case False
    then show ?thesis
      using ki en tr assms(2)
      by (simp add: main_def script_def t Let_def logger_defs emit_log_records print_exc_def)
  qed
qed

text \<open>
  Both branches in the sample environment: the undecodable file \<^verbatim>\<open>binary.json\<close> under
  \<^verbatim>\<open>--verbose\<close> is a handled \<open>ValueError\<close>; the file \<^verbatim>\<open>five.json\<close> holds a number,
  whose \<^verbatim>\<open>len\<close> raises a \<open>TypeError\<close> that is raised again.
\<close>

theorem main_error_handling_witness:
  "fst (main_try sample_env
          ((default_args sample_env)\<lparr>verbose := True, config := [''/'', ''etc'', ''binary.json'']\<rparr>)
          (main_start
             ((default_args sample_env)\<lparr>verbose := True, config := [''/'', ''etc'', ''binary.json'']\<rparr>)
             fresh_state)) = Inl (UnicodeDecodeError ''invalid start byte'') \<and>
   is_Exception (UnicodeDecodeError ''invalid start byte'') \<and>
   script sample_env
     ((default_args sample_env)\<lparr>verbose := True, config := [''/'', ''etc'', ''binary.json'']\<rparr>)
     fresh_state =
     (Exited 1,
      \<lparr>root_level = DEBUG,
       log_records =
         [(INFO, ''Starting {{SCRIPT_NAME}}'', []),
          (DEBUG, ''All requirements satisfied'', []),
          (ERROR, ''Handled error: %s'', [AExn (UnicodeDecodeError ''invalid start byte'')])],
       spawned = [],
       printed_traces = [UnicodeDecodeError ''invalid start byte'']\<rparr>) \<and>
   fst (main_try sample_env
          ((default_args sample_env)\<lparr>config := [''/'', ''etc'', ''five.json'']\<rparr>)
          (main_start ((default_args sample_env)\<lparr>config := [''/'', ''etc'', ''five.json'']\<rparr>)
             fresh_state)) = Inl (TypeError ''object has no len()'') \<and>
   is_Exception (TypeError ''object has no len()'') \<and>
   script sample_env
     ((default_args sample_env)\<lparr>config := [''/'', ''etc'', ''five.json'']\<rparr>) fresh_state =
     (Uncaught (TypeError ''object has no len()''),
      \<lparr>root_level = INFO,
       log_records =
         [(INFO, ''Starting {{SCRIPT_NAME}}'', []),
          (ERROR, ''Unexpected error: %s'', [AExn (TypeError ''object has no len()'')])],
       spawned = [],
       printed_traces = []\<rparr>)"
  using main_error_handling [of sample_env
      "(default_args sample_env)\<lparr>verbose := True, config := [''/'', ''etc'', ''binary.json'']\<rparr>"
      fresh_state "UnicodeDecodeError ''invalid start byte''"]
    main_error_handling [of sample_env
      "(default_args sample_env)\<lparr>config := [''/'', ''etc'', ''five.json'']\<rparr>" fresh_state
      "TypeError ''object has no len()''"]
  by (simp add: script_defs sample_defs)

text \<open>
  An interrupt that arrives inside one of the calls of the \<^verbatim>\<open>try\<close> block, so that
  the call raises \<open>KeyboardInterrupt\<close>, reaches the handler of \<open>main\<close>: the warning is
  logged, \<open>main\<close> returns 130 and the process exits with status 130.
\<close>

lemma interrupt_in_call:
  assumes "fst (main_try env a (main_start a st0)) = Inl KeyboardInterrupt"
  shows "fst (main env a st0) = Inr 130 \<and>
         fst (script env a st0) = Exited 130 \<and>
         last (log_records (snd (script env a st0))) =
           (WARNING, ''Script interrupted by user'', [])"
proof -
  obtain st where t: "main_try env a (main_start a st0) = (Inl KeyboardInterrupt, st)"
    using assms by (cases "main_try env a (main_start a st0)") simp
  have en: "enabled WARNING st"
    using main_try_keeps(3) [of WARNING env a "main_start a st0"] by (simp add: t)
  show ?thesis
    using en by (simp add: main_def script_def t logger_defs emit_log_records)
qed

text \<open>The user interrupts while \<^verbatim>\<open>app.json\<close> is parsed.\<close>

lemma interrupt_in_call_sample:
  "fst (main_try interrupted_env
          ((default_args interrupted_env)\<lparr>config := [''/'', ''etc'', ''app.json'']\<rparr>)
          (main_start ((default_args interrupted_env)\<lparr>config := [''/'', ''etc'', ''app.json'']\<rparr>)
             fresh_state)) = Inl KeyboardInterrupt \<and>
   fst (script interrupted_env
          ((default_args interrupted_env)\<lparr>config := [''/'', ''etc'', ''app.json'']\<rparr>)
          fresh_state) = Exited 130"
  using interrupt_in_call [of interrupted_env
      "(default_args interrupted_env)\<lparr>config := [''/'', ''etc'', ''app.json'']\<rparr>" fresh_state]
  by (simp add: script_defs sample_defs)

text \<open>
  A run in which the interrupt is not delivered, because control never reaches the
  statement, is the run of \<open>main\<close>; a run in which it is delivered inside the
  \<^verbatim>\<open>try\<close> block leaves the block with \<open>KeyboardInterrupt\<close>.
\<close>

lemma main_try_at_undelivered:
  "\<not> snd (main_try_at env a pt st) \<Longrightarrow> fst (main_try_at env a pt st) = main_try env a st"
  by (auto simp add: main_try_at_def main_try_def Let_def
      split: prod.splits bool.splits sum.splits if_splits)

lemma main_try_at_delivered:
  assumes "snd (main_try_at env a pt st)"
  shows "fst (fst (main_try_at env a pt st)) = Inl KeyboardInterrupt"
    and "in_try pt"
    and "enabled lv (snd (fst (main_try_at env a pt st))) = enabled lv st"
proof -
  obtain ok st1 where c: "check_requirements env st = (ok, st1)"
    by (cases "check_requirements env st")
  obtain r st2 where l: "load_config env (config a) st1 = (r, st2)"
    by (cases "load_config env (config a) st1")
  have k1: "\<And>lv. enabled lv st1 = enabled lv st"
    using check_requirements_keeps(4) [where env = env and st = st] by (simp add: c)
  have k2: "\<And>lv. enabled lv st2 = enabled lv st1"
    using load_config_keeps(4) [where env = env and p = "config a" and st = st1]
    by (simp add: l)
  show "fst (fst (main_try_at env a pt st)) = Inl KeyboardInterrupt"
    using assms
    by (auto simp add: main_try_at_def c l Let_def split: bool.splits sum.splits if_splits)
  show "in_try pt"
    using assms
    by (auto simp add: main_try_at_def c l Let_def split: bool.splits sum.splits if_splits)
  show "enabled lv (snd (fst (main_try_at env a pt st))) = enabled lv st"
    using assms
    by (auto simp add: main_try_at_def c l k1 k2 Let_def logger_defs
        split: bool.splits sum.splits if_splits)
qed

lemma main_at_undelivered:
  assumes "\<not> snd (main_at env a pt st0)"
  shows "fst (main_at env a pt st0) = main env a st0"
proof -
  obtain r st d where t: "main_try_at env a pt (main_start a st0) = ((r, st), d)"
    by (cases "main_try_at env a pt (main_start a st0)") auto
  have p: "pt \<noteq> Parse_args" "pt \<noteq> Setup_logging" "pt \<noteq> Log_start"
    using assms by (auto simp add: main_at_def Let_def)
  have m: "main_try_at env a pt (logger_info ''Starting {{SCRIPT_NAME}}'' []
              (setup_logging (verbose a) st0)) = ((r, st), d)"
    using t by (simp add: main_start_def)
  have nd: "\<not> d"
    using assms p by (cases r) (auto simp add: main_at_def m Let_def split: if_splits)
  then have u: "main_try env a (main_start a st0) = (r, st)"
    using main_try_at_undelivered [of env a pt "main_start a st0"] by (simp add: t)
  show ?thesis
    using assms p nd
    by (cases r) (auto simp add: main_at_def main_def m u Let_def split: if_splits)
qed

lemma script_at_undelivered:
  assumes "\<not> snd (script_at env a pt st0)"
  shows "fst (script_at env a pt st0) = script env a st0"
proof -
  obtain r st d where m: "main_at env a pt st0 = ((r, st), d)"
    by (cases "main_at env a pt st0") auto
  have nd: "\<not> d"
    using assms by (cases r) (auto simp add: script_at_def m split: if_splits)
  then have "main env a st0 = (r, st)"
    using main_at_undelivered [of env a pt st0] by (simp add: m)
  then show ?thesis
    using assms by (cases r) (auto simp add: script_at_def script_def m split: if_splits)
qed

text \<open>
  In every run the interrupt can be delivered before the \<^verbatim>\<open>try\<close> block and inside
  it: the logging setup and the requirements check are always reached.
\<close>

lemma interrupt_always_deliverable:
  "snd (script_at env a Setup_logging st0)" "snd (script_at env a Check_requirements st0)"
  by (simp_all add: script_at_def main_at_def main_try_at_def Let_def)

text \<open>
  C3, as stated, fails. The interrupt is delivered while \<^verbatim>\<open>setup_logging\<close> runs
  (line 155), under Python 3.7.9. That statement stands before the \<^verbatim>\<open>try\<close> block
  (line 158), so no handler of \<open>main\<close> is in force: \<open>KeyboardInterrupt\<close> leaves
  \<open>main\<close>, \<^verbatim>\<open>sys.exit\<close> is not reached, and the process ends with the uncaught
  exception, not with the exit status 130 that the script sets.
\<close>

theorem interrupt_at_point_counterexample:
  "snd (script_at legacy_env (default_args legacy_env) Setup_logging fresh_state) \<and>
   fst (script_at legacy_env (default_args legacy_env) Setup_logging fresh_state) =
     (Uncaught KeyboardInterrupt, fresh_state) \<and>
   fst (fst (script_at legacy_env (default_args legacy_env) Setup_logging fresh_state)) \<noteq>
     Exited 130"
  by (simp add: script_at_def main_at_def)

text \<open>
  C3, amended. An interrupt delivered at a statement inside the \<^verbatim>\<open>try\<close> block of
  \<open>main\<close> yields process exit status exactly 130, with the warning of the interruption
  as the last record of the log. An interrupt delivered at a statement outside the
  block (the argument parsing, the logging setup, the start record, the body of an
  \<^verbatim>\<open>except\<close> handler, the call of \<^verbatim>\<open>sys.exit\<close>) is not caught: the process
  ends with the uncaught \<open>KeyboardInterrupt\<close>. So a delivered interrupt yields exit
  status 130 through the script exactly when it is delivered inside the block.
\<close>

theorem interrupt_at_point:
  assumes "snd (script_at env a pt st0)"
  shows "(fst (fst (script_at env a pt st0)) = Exited 130) = in_try pt \<and>
         (in_try pt \<longrightarrow>
            last (log_records (snd (fst (script_at env a pt st0)))) =
              (WARNING, ''Script interrupted by user'', [])) \<and>
         (\<not> in_try pt \<longrightarrow> fst (fst (script_at env a pt st0)) = Uncaught KeyboardInterrupt)"
proof (cases "pt = Parse_args \<or> pt = Setup_logging \<or> pt = Log_start")
  case True
  then show ?thesis
    by (auto simp add: script_at_def main_at_def Let_def)
next
  case False
  obtain r st d where t: "main_try_at env a pt (main_start a st0) = ((r, st), d)"
    by (cases "main_try_at env a pt (main_start a st0)") auto
  have m: "main_try_at env a pt (logger_info ''Starting {{SCRIPT_NAME}}'' []
              (setup_logging (verbose a) st0)) = ((r, st), d)"
    using t by (simp add: main_start_def)
  show ?thesis
  proof (cases d)
    case True
    have r: "r = Inl KeyboardInterrupt" and i: "in_try pt" and e: "enabled WARNING st"
      using main_try_at_delivered [of env a pt "main_start a st0"] True by (simp_all add: t)
    from i have p: "pt \<noteq> Handler" "pt \<noteq> Sys_exit" by auto
    have ma: "main_at env a pt st0 =
        ((Inr 130, logger_warning ''Script interrupted by user'' [] st), True)"
      using False p True by (simp add: main_at_def m r Let_def)
    show ?thesis
      using p i e by (simp add: script_at_def ma logger_defs emit_log_records)
  next
    case nd: False
    have n: "\<not> in_try pt"
    proof
      assume i: "in_try pt"
      then have p: "pt \<noteq> Handler" "pt \<noteq> Sys_exit" by auto
      have "\<not> snd (script_at env a pt st0)"
        using False p nd
        by (cases r) (auto simp add: script_at_def main_at_def m Let_def)
      with assms show False by simp
    qed
    have "fst (fst (script_at env a pt st0)) = Uncaught KeyboardInterrupt"
      using assms False nd
      by (cases r)
        (auto simp add: script_at_def main_at_def m Let_def split: if_splits sum.splits)
    with n show ?thesis by simp
  qed
qed

text \<open>
  In the sample environment: an interrupt while the configuration is loaded (line 165)
  gives exit status 130; an interrupt at \<^verbatim>\<open>sys.exit\<close> (line 212) is uncaught.
\<close>

theorem interrupt_at_point_witness:
  "snd (script_at sample_env (default_args sample_env) Load_config fresh_state) \<and>
   in_try Load_config \<and>
   fst (fst (script_at sample_env (default_args sample_env) Load_config fresh_state)) =
     Exited 130 \<and>
   snd (script_at sample_env (default_args sample_env) Sys_exit fresh_state) \<and>
   \<not> in_try Sys_exit \<and>
   fst (fst (script_at sample_env (default_args sample_env) Sys_exit fresh_state)) =
     Uncaught KeyboardInterrupt"
  using interrupt_at_point [of sample_env "default_args sample_env" Load_config fresh_state]
    interrupt_at_point [of sample_env "default_args sample_env" Sys_exit fresh_state]
  by (simp add: script_at_def main_at_def main_try_at_def script_defs sample_defs)

text \<open>
  C7, as stated, fails. With no arguments the logger's threshold is \<open>INFO\<close>, and the
  record that the requirements are satisfied is a \<open>DEBUG\<close> record: it is not emitted.
  In the sample environment (no configuration file at the default path, Python 3.11)
  the log of the run is the four records below, and the five claimed ones are not a
  subsequence of it.
\<close>

theorem default_run_log_counterexample:
  "path_exists sample_env (config (default_args sample_env)) = Inr False \<and>
   \<not> tuple_lt [major (sys_version_info sample_env), minor (sys_version_info sample_env),
               micro (sys_version_info sample_env)] [3, 8] \<and>
   messages (snd (script sample_env (default_args sample_env) fresh_state)) =
     [''Starting {{SCRIPT_NAME}}'',
      ''Configuration file %s not found, using defaults'',
      ''Script logic not yet implemented'',
      ''{{SCRIPT_NAME}} completed successfully''] \<and>
   \<not> subseq
       [''Starting {{SCRIPT_NAME}}'',
        ''All requirements satisfied'',
        ''Configuration file %s not found, using defaults'',
        ''Script logic not yet implemented'',
        ''{{SCRIPT_NAME}} completed successfully'']
       (messages (snd (script sample_env (default_args sample_env) fresh_state)))"
proof -
  have m: "messages (snd (script sample_env (default_args sample_env) fresh_state)) =
     [''Starting {{SCRIPT_NAME}}'',
      ''Configuration file %s not found, using defaults'',
      ''Script logic not yet implemented'',
      ''{{SCRIPT_NAME}} completed successfully'']"
    by (simp add: script_defs sample_defs)
  have n: "\<not> subseq
       [''Starting {{SCRIPT_NAME}}'',
        ''All requirements satisfied'',
        ''Configuration file %s not found, using defaults'',
        ''Script logic not yet implemented'',
        ''{{SCRIPT_NAME}} completed successfully'']
       [''Starting {{SCRIPT_NAME}}'',
        ''Configuration file %s not found, using defaults'',
        ''Script logic not yet implemented'',
        ''{{SCRIPT_NAME}} completed successfully'']"
  proof
    assume "subseq
       [''Starting {{SCRIPT_NAME}}'',
        ''All requirements satisfied'',
        ''Configuration file %s not found, using defaults'',
        ''Script logic not yet implemented'',
        ''{{SCRIPT_NAME}} completed successfully'']
       [''Starting {{SCRIPT_NAME}}'',
        ''Configuration file %s not found, using defaults'',
        ''Script logic not yet implemented'',
        ''{{SCRIPT_NAME}} completed successfully'']"
    from list_emb_length [OF this] show False by simp
  qed
  show ?thesis
    unfolding m using n by (simp add: sample_defs)
qed

text \<open>
  C7, amended. A run without \<^verbatim>\<open>--dry-run\<close>, with no file at the configuration path
  and an interpreter that is not older than 3.8, ends with exit status 0 and adds to the
  log, in this order: the start record, the configuration-not-found warning, the
  not-yet-implemented record and the completed record. The record that the
  requirements are satisfied, after the start record, and the record that counts the
  entries of the configuration, after the warning, are \<open>DEBUG\<close> records: they are
  emitted only under \<^verbatim>\<open>--verbose\<close>, so not in a run with no arguments.
\<close>

theorem default_run_log:
  assumes "path_exists env (config a) = Inr False"
    and "\<not> tuple_lt [major (sys_version_info env), minor (sys_version_info env),
                      micro (sys_version_info env)] [3, 8]"
    and "\<not> dry_run a"
  shows "fst (script env a st0) = Exited 0 \<and>
         log_records (snd (script env a st0)) =
           log_records st0 @
           [(INFO, ''Starting {{SCRIPT_NAME}}'', [])] @
           (if verbose a then [(DEBUG, ''All requirements satisfied'', [])] else []) @
           [(WARNING, ''Configuration file %s not found, using defaults'', [APath (config a)])] @
           (if verbose a then [(DEBUG, ''Loaded config with %d entries'', [AInt 0])] else []) @
           [(INFO, ''Script logic not yet implemented'', []),
            (INFO, ''{{SCRIPT_NAME}} completed successfully'', [])]"
proof -
  let ?s = "main_start a st0"
  have c: "check_requirements env ?s = (True, logger_debug ''All requirements satisfied'' [] ?s)"
    using assms(2) by (simp add: check_requirements_def Let_def)
  have l: "load_config env (config a) (logger_debug ''All requirements satisfied'' [] ?s) =
      (Inr (JDict []),
       logger_warning ''Configuration file %s not found, using defaults'' [APath (config a)]
         (logger_debug ''All requirements satisfied'' [] ?s))"
    using assms(1) by (rule load_config_absent)
  have t: "main_try env a ?s =
      (Inr 0,
       logger_info ''{{SCRIPT_NAME}} completed successfully'' []
         (logger_info ''Script logic not yet implemented'' []
            (logger_debug ''Loaded config with %d entries'' [AInt 0]
               (logger_warning ''Configuration file %s not found, using defaults''
                  [APath (config a)]
                  (logger_debug ''All requirements satisfied'' [] ?s)))))"
    using assms(3) by (simp add: main_try_def c l Let_def)
  have m: "main env a st0 = main_try env a ?s"
    by (simp add: main_def t)
  show ?thesis
    by (simp add: script_def m t logger_defs emit_log_records main_start_log_records)
qed

text \<open>The run with no arguments in the sample environment.\<close>

theorem default_run_log_witness:
  "path_exists sample_env (config (default_args sample_env)) = Inr False \<and>
   \<not> tuple_lt [major (sys_version_info sample_env), minor (sys_version_info sample_env),
               micro (sys_version_info sample_env)] [3, 8] \<and>
   \<not> dry_run (default_args sample_env) \<and>
   fst (script sample_env (default_args sample_env) fresh_state) = Exited 0 \<and>
   log_records (snd (script sample_env (default_args sample_env) fresh_state)) =
     [(INFO, ''Starting {{SCRIPT_NAME}}'', []),
      (WARNING, ''Configuration file %s not found, using defaults'',
       [APath [''/'', ''home'', ''user'', ''.config'', ''{{SCRIPT_NAME}}.json'']]),
      (INFO, ''Script logic not yet implemented'', []),
      (INFO, ''{{SCRIPT_NAME}} completed successfully'', [])]"
  using default_run_log [of sample_env "default_args sample_env" fresh_state]
  by (simp add: sample_defs)

text \<open>
  C8, as stated, fails. Under an interpreter older than 3.8 the requirements check
  fails, and \<open>main\<close> returns 1 before it reaches the test of the dry-run flag:
  a run with \<^verbatim>\<open>--dry-run\<close> on Python 3.7.9 logs three records, and the dry-run
  notice is not among them.
\<close>

theorem dry_run_notice_counterexample:
  "dry_run ((default_args legacy_env)\<lparr>dry_run := True\<rparr>) \<and>
   fst (main legacy_env ((default_args legacy_env)\<lparr>dry_run := True\<rparr>) fresh_state) = Inr 1 \<and>
   log_records (snd (main legacy_env ((default_args legacy_env)\<lparr>dry_run := True\<rparr>) fresh_state)) =
     [(INFO, ''Starting {{SCRIPT_NAME}}'', []),
      (ERROR, ''Python 3.8 or higher is required'', []),
      (ERROR, ''Requirements check failed'', [])] \<and>
   (INFO, ''DRY RUN MODE - No changes will be made'', [])
     \<notin> set (log_records
              (snd (main legacy_env ((default_args legacy_env)\<lparr>dry_run := True\<rparr>) fresh_state)))"
  by (simp add: script_defs sample_defs)

text \<open>
  How the logging calls of the script change the number of dry-run notices in the log:
  only the call at line 172 adds one.
\<close>

lemma emit_other_record:
  "m \<noteq> ''DRY RUN MODE - No changes will be made'' \<Longrightarrow>
   times_logged dry_run_record (emit lv m as st) = times_logged dry_run_record st"
  by (simp add: times_logged_def emit_def dry_run_record_def)

lemma emit_dry_run_record:
  "times_logged dry_run_record (emit INFO ''DRY RUN MODE - No changes will be made'' [] st) =
     times_logged dry_run_record st + (if enabled INFO st then 1 else 0)"
  by (simp add: times_logged_def emit_def dry_run_record_def)

lemma print_exc_times_logged:
  "times_logged r (print_exc e st) = times_logged r st"
  by (simp add: times_logged_def print_exc_def)

lemma check_requirements_no_notice:
  "times_logged dry_run_record (snd (check_requirements env st)) =
     times_logged dry_run_record st"
  by (simp add: check_requirements_def Let_def logger_defs emit_other_record)

lemma load_config_no_notice:
  "times_logged dry_run_record (snd (load_config env p st)) = times_logged dry_run_record st"
  by (simp add: load_config_def logger_defs emit_other_record split: sum.splits)

lemma main_try_notice:
  assumes "enabled INFO st"
  shows "times_logged dry_run_record (snd (main_try env a st)) =
           times_logged dry_run_record st +
           (if dry_run a \<and> fst (main_try env a st) = Inr 0 then 1 else 0)"
proof -
  obtain ok st1 where c: "check_requirements env st = (ok, st1)"
    by (cases "check_requirements env st")
  obtain r st2 where l: "load_config env (config a) st1 = (r, st2)"
    by (cases "load_config env (config a) st1")
  have k1: "enabled INFO st1" "times_logged dry_run_record st1 = times_logged dry_run_record st"
    using check_requirements_keeps(4) [of INFO env st] check_requirements_no_notice [of env st]
      assms
    by (simp_all add: c)
  have k2: "enabled INFO st2" "times_logged dry_run_record st2 = times_logged dry_run_record st1"
    using load_config_keeps(4) [of INFO env "config a" st1]
      load_config_no_notice [of env "config a" st1] k1(1)
    by (simp_all add: l)
  show ?thesis
  proof (cases ok)
    case False
    then show ?thesis
      by (simp add: main_try_def c k1 logger_defs emit_other_record)
  next
    case True
    show ?thesis
    proof (cases r)
      case (Inl e)
      with True show ?thesis
        by (simp add: main_try_def c l k1 k2)
    next
      case (Inr cfg)
      show ?thesis
      proof (cases "py_len cfg")
        case (Inl e)
        with True Inr show ?thesis
          by (simp add: main_try_def c l k1 k2)
      next
        case n: (Inr n)
        with True Inr show ?thesis
          by (simp add: main_try_def c l k1 k2 Let_def logger_defs emit_other_record
              emit_dry_run_record)
      qed
    qed
  qed
qed

text \<open>
  C8, amended. No run of \<open>main\<close> starts an external command: \<open>main\<close> never calls
  \<open>run_command\<close>. With \<^verbatim>\<open>--dry-run\<close> the run adds the dry-run notice to the
  log, once, exactly when \<open>main\<close> returns 0; a run that ends otherwise, such as the run
  under an interpreter older than 3.8 that returns 1 after the failed requirements
  check, adds no dry-run notice. Without the flag no run adds one.
\<close>

theorem dry_run_notice:
  "spawned (snd (main env a st0)) = spawned st0 \<and>
   times_logged dry_run_record (snd (main env a st0)) =
     times_logged dry_run_record st0 +
     (if dry_run a \<and> fst (main env a st0) = Inr 0 then 1 else 0)"
proof
  show "spawned (snd (main env a st0)) = spawned st0"
    by (rule main_spawned)
next
  obtain r st where t: "main_try env a (main_start a st0) = (r, st)"
    by (cases "main_try env a (main_start a st0)")
  have s: "times_logged dry_run_record (main_start a st0) = times_logged dry_run_record st0"
    by (simp add: main_start_def logger_defs emit_other_record)
      (simp add: times_logged_def setup_logging_def)
  have n: "times_logged dry_run_record st =
      times_logged dry_run_record st0 + (if dry_run a \<and> r = Inr 0 then 1 else 0)"
    using main_try_notice [of "main_start a st0" env a] by (simp add: t s)
  show "times_logged dry_run_record (snd (main env a st0)) =
      times_logged dry_run_record st0 +
      (if dry_run a \<and> fst (main env a st0) = Inr 0 then 1 else 0)"
  proof (cases r)
    case (Inr k)
    with n show ?thesis by (simp add: main_def t)
  next
    case (Inl e)
    with n show ?thesis
      by (simp add: main_def t Let_def logger_defs emit_other_record print_exc_times_logged)
  qed
qed

text \<open>
  With \<^verbatim>\<open>--dry-run\<close> alone: one notice in the sample environment, where the run
  returns 0, and none under Python 3.7.9, where it returns 1.
\<close>

theorem dry_run_notice_witness:
  "dry_run ((default_args sample_env)\<lparr>dry_run := True\<rparr>) \<and>
   fst (main sample_env ((default_args sample_env)\<lparr>dry_run := True\<rparr>) fresh_state) = Inr 0 \<and>
   spawned (snd (main sample_env ((default_args sample_env)\<lparr>dry_run := True\<rparr>) fresh_state)) = [] \<and>
   times_logged dry_run_record
     (snd (main sample_env ((default_args sample_env)\<lparr>dry_run := True\<rparr>) fresh_state)) = 1 \<and>
   fst (main legacy_env ((default_args legacy_env)\<lparr>dry_run := True\<rparr>) fresh_state) = Inr 1 \<and>
   times_logged dry_run_record
     (snd (main legacy_env ((default_args legacy_env)\<lparr>dry_run := True\<rparr>) fresh_state)) = 0"
  using dry_run_notice [of sample_env "(default_args sample_env)\<lparr>dry_run := True\<rparr>" fresh_state]
    dry_run_notice [of legacy_env "(default_args legacy_env)\<lparr>dry_run := True\<rparr>" fresh_state]
  by (simp add: script_defs sample_defs times_logged_def dry_run_record_def)

end
